theory Spec2Isabelle
  imports Complex_Main
begin

section \<open>Meshtastic transmission speed simulator\<close>

text \<open>
  A shallow embedding of \<^verbatim>\<open>meshtastic_sim.py\<close>.

  Conventions of the embedding:
  \<^item> Python \<^verbatim>\<open>int\<close> is \<^typ>\<open>int\<close>; \<^verbatim>\<open>//\<close> on integers is floor division, which is
    \<open>div\<close> on \<^typ>\<open>int\<close>.
  \<^item> Python \<^verbatim>\<open>float\<close> is \<^typ>\<open>rat\<close>: the arithmetic is exact, rounding of IEEE doubles
    is not represented. A literal such as \<^verbatim>\<open>1.07\<close> is the rational \<open>107 / 100\<close>.
  \<^item> Python \<^verbatim>\<open>str\<close> is \<^typ>\<open>string\<close>, one \<^typ>\<open>char\<close> for each character, so
    that \<^verbatim>\<open>len\<close> is \<^const>\<open>length\<close> and the slice \<^verbatim>\<open>s[i:i + n]\<close> is
    \<open>take n (drop i s)\<close>.
  \<^item> A raised exception is a value of \<open>py_error\<close>.
  \<^item> \<^verbatim>\<open>print\<close>, \<^verbatim>\<open>input\<close> and \<^verbatim>\<open>time.sleep\<close> are recorded as events of a trace;
    \<^verbatim>\<open>time.time()\<close> and the figures derived from it are not represented.
\<close>

subsection \<open>Exceptions\<close>

datatype py_error = ZeroDivisionError | ValueError | EOFError | KeyError

subsection \<open>The preset table\<close>

text \<open>
  \<^verbatim>\<open>RADIO_PRESETS\<close>, lines 20-29. The dictionary is an association list in the order of
  the source; a value is the tuple
  (data_rate_kbps, packet_size_bytes, sf_symbols, bandwidth_khz, coding_rate, description).
\<close>

type_synonym preset = "rat \<times> int \<times> string \<times> int \<times> string \<times> string"

definition RADIO_PRESETS :: "(string \<times> preset) list" where
  "RADIO_PRESETS =
    [(''1'', (21.88, 237, ''7/128'', 500, ''4/5'',
        ''Short Range / Turbo - Fastest speed, shortest range'')),
     (''2'', (10.94, 237, ''7/128'', 250, ''4/5'',
        ''Short Range / Fast - High speed, short range'')),
     (''3'', (6.25, 237, ''8/256'', 250, ''4/5'',
        ''Short Range / Slow - Moderate speed, short range'')),
     (''4'', (3.52, 237, ''9/512'', 250, ''4/5'',
        ''Medium Range / Fast - Good balance of speed and range'')),
     (''5'', (1.95, 237, ''10/1024'', 250, ''4/5'',
        ''Medium Range / Slow - Lower speed, better range'')),
     (''6'', (1.07, 237, ''11/2048'', 250, ''4/5'',
        ''Long Range / Fast - DEFAULT PRESET - Low speed, long range'')),
     (''7'', (0.34, 237, ''11/2048'', 125, ''4/8'',
        ''Long Range / Moderate - Very low speed, very long range'')),
     (''8'', (0.18, 237, ''12/4096'', 125, ''4/8'',
        ''Long Range / Slow - Slowest speed, maximum range''))]"

text \<open>\<^verbatim>\<open>self.default_preset\<close>, line 58.\<close>

definition default_preset :: string where
  "default_preset = ''6''"

subsection \<open>Transmission metrics\<close>

text \<open>The dictionary returned by \<^verbatim>\<open>calculate_transmission_metrics\<close>, lines 132-140.\<close>

record metrics =
  bytes_per_second :: rat
  transmission_time_per_packet :: rat
  total_packets :: int
  total_transmission_time :: rat
  effective_data_rate_bps :: rat
  effective_data_rate_kbps :: rat
  overhead_percentage :: rat

text \<open>
  \<^verbatim>\<open>calculate_transmission_metrics\<close>, lines 124-140. The two unguarded divisions
  (line 127 by \<^verbatim>\<open>bytes_per_second\<close>, line 128 by \<^verbatim>\<open>packet_size\<close>) raise
  \<^verbatim>\<open>ZeroDivisionError\<close> on a zero divisor, in the order of the source; the divisions of
  lines 130 and 139 are guarded by the source's conditional expressions.
\<close>

definition calculate_transmission_metrics :: "rat \<Rightarrow> int \<Rightarrow> int \<Rightarrow> py_error + metrics" where
  "calculate_transmission_metrics data_rate_kbps content_length packet_size =
    (let bps = (data_rate_kbps * 1000) / 8 in
     if bps = 0 then Inl ZeroDivisionError
     else
       let time_per_packet = of_int packet_size / bps in
       if packet_size = 0 then Inl ZeroDivisionError
       else
         let packets = (content_length + packet_size - 1) div packet_size;
             total_time = of_int packets * time_per_packet;
             effective_data_rate =
               (if total_time > 0 then of_int content_length / total_time else 0)
         in Inr \<lparr> bytes_per_second = bps,
                  transmission_time_per_packet = time_per_packet,
                  total_packets = packets,
                  total_transmission_time = total_time,
                  effective_data_rate_bps = effective_data_rate,
                  effective_data_rate_kbps = (effective_data_rate * 8) / 1000,
                  overhead_percentage =
                    (if content_length > 0
                     then of_int (packets * packet_size - content_length)
                            / of_int content_length * 100
                     else 0) \<rparr>)"

subsection \<open>Strings\<close>

text \<open>
  \<^verbatim>\<open>str.lower()\<close>: the letters A to Z are mapped to a to z, every other character is
  left as it is.
\<close>

definition lower_char :: "char \<Rightarrow> char" where
  "lower_char c =
    (let n = (of_char c :: nat) in if 65 \<le> n \<and> n \<le> 90 then char_of (n + 32) else c)"

definition lower :: "string \<Rightarrow> string" where
  "lower s = map lower_char s"

text \<open>
  \<^verbatim>\<open>SAMPLE_TEXT\<close>, lines 32-54: twenty-two lines, each ended by a newline. The bullet
  U+2022 of lines 37-42 is one character of the Python string; it stands here as the
  single character \<open>bullet\<close>, which keeps the length of the text.
\<close>

definition bullet :: char where
  "bullet = CHR 0x95"

definition unlines :: "string list \<Rightarrow> string" where
  "unlines ls = concat (map (\<lambda>l. l @ [CHR 0x0A]) ls)"

definition SAMPLE_TEXT :: string where
  "SAMPLE_TEXT = unlines
    [''Welcome to the Meshtastic Network!'',
     '''',
     ''This is a sample message to demonstrate transmission speeds across different radio presets. Meshtastic creates a long range, low power mesh network for communication when traditional infrastructure is unavailable.'',
     '''',
     ''Key features of Meshtastic:'',
     [bullet] @ '' Long range LoRa radio communication (up to 254km record!)'',
     [bullet] @ '' Low power consumption for battery operation'',
     [bullet] @ '' Mesh networking with automatic message routing'',
     [bullet] @ '' End-to-end encryption for secure communications'',
     [bullet] @ '' GPS position sharing and tracking'',
     [bullet] @ '' Open source hardware and software'',
     '''',
     ''Radio presets balance three key factors:'',
     ''1. Speed - How fast data transmits'',
     ''2. Range - How far signals reach'',
     ''3. Reliability - How well signals penetrate obstacles'',
     '''',
     ''The LongFast preset is the default because it provides the best balance for most users. Faster presets like ShortTurbo are great for high-density networks, while slower presets like LongSlow maximize range for remote communications.'',
     '''',
     ''This simulation helps you understand how different presets affect real-world message delivery times. Try different presets to see the dramatic differences in transmission speeds!'',
     '''',
     ''73, and happy meshing!'']"

subsection \<open>Content sources\<close>

text \<open>
  What \<^verbatim>\<open>get_file_content\<close> reads from outside the program:
  \<^item> \<open>scheme_of\<close>: \<^verbatim>\<open>urlparse(source).scheme\<close>, \<open>None\<close> when \<^verbatim>\<open>urlparse\<close> raises;
  \<^item> \<open>url_body\<close>: the decoded body of \<^verbatim>\<open>urllib.request.urlopen(source)\<close>, \<open>None\<close> when
    opening, reading or decoding raises;
  \<^item> \<open>path_exists\<close>: \<^verbatim>\<open>os.path.exists(source)\<close>;
  \<^item> \<open>file_body\<close>: the text of the file, \<open>None\<close> when opening or reading raises.
\<close>

record env =
  scheme_of :: "string \<Rightarrow> string option"
  url_body :: "string \<Rightarrow> string option"
  path_exists :: "string \<Rightarrow> bool"
  file_body :: "string \<Rightarrow> string option"

subsection \<open>Events\<close>

text \<open>
  The observable actions of the program, in the order they happen. A \<open>Print_\<close> event is a
  call of \<^verbatim>\<open>print\<close> (the source line is given), \<open>Prompt_\<close> a call of \<^verbatim>\<open>input\<close>,
  \<open>Sleep d\<close> a call \<^verbatim>\<open>time.sleep(d)\<close> that ran to its end.
\<close>

datatype event =
    Print_DirectMode string string   \<comment> \<open>line 341: source, preset id\<close>
  | Print_Usage                      \<comment> \<open>lines 346-347\<close>
  | Print_UsingSample                \<comment> \<open>line 101\<close>
  | Print_Fetching string            \<comment> \<open>line 108\<close>
  | Print_Reading string             \<comment> \<open>line 116\<close>
  | Print_ErrorReading               \<comment> \<open>line 121\<close>
  | Print_InvalidPreset string       \<comment> \<open>line 190\<close>
  | Print_Analysis string nat int    \<comment> \<open>lines 158-166: preset id, \<^verbatim>\<open>len(content)\<close>, packets\<close>
  | Prompt_Slow                      \<comment> \<open>line 199\<close>
  | Prompt_Moderate                  \<comment> \<open>line 204\<close>
  | Print_Cancelled                  \<comment> \<open>lines 201 and 206\<close>
  | Print_Starting                   \<comment> \<open>line 209\<close>
  | Print_EachDot                    \<comment> \<open>line 211\<close>
  | Print_Header nat int             \<comment> \<open>line 223: \<^verbatim>\<open>packet_num\<close>, \<^verbatim>\<open>total_packets\<close>\<close>
  | Print_Dot                        \<comment> \<open>line 230\<close>
  | Sleep rat                        \<comment> \<open>lines 231, 236 and 254\<close>
  | Print_OK                         \<comment> \<open>line 238\<close>
  | Print_Chunk string               \<comment> \<open>line 241\<close>
  | Live_Stats nat int nat           \<comment> \<open>line 249: the call of \<^verbatim>\<open>display_live_stats\<close>\<close>

text \<open>
  How a run ends. \<open>Cancelled\<close> and \<open>Completed\<close> carry the figures of the final message:
  \<^verbatim>\<open>packet_num - 1\<close>, \<^verbatim>\<open>total_packets\<close> and \<^verbatim>\<open>self.total_bytes_sent\<close> of lines 258-259,
  \<^verbatim>\<open>packet_num - 1\<close> of line 267 with \<^verbatim>\<open>self.total_bytes_sent\<close>.
\<close>

datatype outcome =
    NotStarted                 \<comment> \<open>\<^verbatim>\<open>main\<close> returned without calling \<^verbatim>\<open>simulate_transmission\<close>\<close>
  | InvalidPreset              \<comment> \<open>the return of line 191\<close>
  | Declined                   \<comment> \<open>the returns of lines 202 and 207\<close>
  | Cancelled nat int nat      \<comment> \<open>the return of line 260\<close>
  | Completed nat nat          \<comment> \<open>the end of \<^verbatim>\<open>simulate_transmission\<close>, line 267\<close>
  | Raised py_error            \<comment> \<open>an exception that nothing catches\<close>
  | Interactive                \<comment> \<open>the menu of \<^verbatim>\<open>run\<close>, lines 269-329, which is not embedded\<close>

text \<open>
  \<^verbatim>\<open>get_file_content\<close>, lines 98-122: the events printed and the content, \<open>None\<close> for
  the \<^verbatim>\<open>return None\<close> of the exception handler.
\<close>

definition get_file_content :: "env \<Rightarrow> string \<Rightarrow> event list \<times> string option" where
  "get_file_content e source =
    (if lower source \<in> set [''sample'', ''demo'', ''test'', ''default'']
     then ([Print_UsingSample], Some SAMPLE_TEXT)
     else
       (case scheme_of e source of
          None \<Rightarrow> ([Print_ErrorReading], None)
        | Some scheme \<Rightarrow>
            if scheme \<in> set [''http'', ''https''] then
              (case url_body e source of
                 None \<Rightarrow> ([Print_Fetching source, Print_ErrorReading], None)
               | Some body \<Rightarrow> ([Print_Fetching source], Some body))
            else if \<not> path_exists e source then ([Print_ErrorReading], None)
            else
              (case file_body e source of
                 None \<Rightarrow> ([Print_Reading source, Print_ErrorReading], None)
               | Some body \<Rightarrow> ([Print_Reading source], Some body))))"

text \<open>
  \<^verbatim>\<open>display_transmission_info\<close>, lines 153-168: the subscript
  \<^verbatim>\<open>RADIO_PRESETS[preset_id]\<close> raises \<^verbatim>\<open>KeyError\<close> on an unknown id.
\<close>

definition display_transmission_info :: "string \<Rightarrow> string \<Rightarrow> py_error + (event \<times> metrics)" where
  "display_transmission_info content preset_id =
    (case map_of RADIO_PRESETS preset_id of
       None \<Rightarrow> Inl KeyError
     | Some (data_rate, packet_size, sf_symbols, bandwidth, coding_rate, description) \<Rightarrow>
         (case calculate_transmission_metrics data_rate (int (length content)) packet_size of
            Inl err \<Rightarrow> Inl err
          | Inr m \<Rightarrow> Inr (Print_Analysis preset_id (length content) (total_packets m), m)))"

subsection \<open>The transmission loop\<close>

text \<open>
  The state of a run: \<^verbatim>\<open>self.total_bytes_sent\<close>, the local \<^verbatim>\<open>packet_num\<close>, the events so
  far, and the pending interrupt. \<open>pending = Some k\<close> says that \<^verbatim>\<open>KeyboardInterrupt\<close> is
  raised in the call of \<^verbatim>\<open>time.sleep\<close> that follows \<open>k\<close> completed ones; \<open>None\<close> says
  that the run is not interrupted.
\<close>

record sim_state =
  total_bytes_sent :: nat
  packet_num :: nat
  trace :: "event list"
  pending :: "nat option"

definition emit :: "event \<Rightarrow> sim_state \<Rightarrow> sim_state" where
  "emit ev st = st\<lparr>trace := trace st @ [ev]\<rparr>"

text \<open>
  \<^verbatim>\<open>time.sleep(seconds)\<close>: \<open>Inl\<close> is \<^verbatim>\<open>KeyboardInterrupt\<close> with the state it was raised in,
  \<open>Inr\<close> the state after the sleep. The \<^verbatim>\<open>ValueError\<close> of a negative duration has no
  branch: line 231 runs only when \<^verbatim>\<open>int(delay)\<close> is positive, line 236 is guarded by
  \<^verbatim>\<open>remaining_delay > 0\<close> and line 254 sleeps a constant, so no call passes a negative
  number.
\<close>

definition sleep :: "rat \<Rightarrow> sim_state \<Rightarrow> sim_state + sim_state" where
  "sleep seconds st =
    (case pending st of
       None \<Rightarrow> Inr (emit (Sleep seconds) st)
     | Some 0 \<Rightarrow> Inl st
     | Some (Suc k) \<Rightarrow> Inr ((emit (Sleep seconds) st)\<lparr>pending := Some k\<rparr>))"

text \<open>\<^verbatim>\<open>int(x)\<close> of a float: truncation towards zero.\<close>

definition py_int :: "rat \<Rightarrow> int" where
  "py_int x = (if 0 \<le> x then \<lfloor>x\<rfloor> else \<lceil>x\<rceil>)"

text \<open>The loop of lines 229-231, \<open>n\<close> iterations.\<close>

fun dots_loop :: "nat \<Rightarrow> rat \<Rightarrow> sim_state \<Rightarrow> sim_state + sim_state" where
  "dots_loop 0 dot_interval st = Inr st"
| "dots_loop (Suc n) dot_interval st =
    (case sleep dot_interval (emit Print_Dot st) of
       Inl st' \<Rightarrow> Inl st'
     | Inr st' \<Rightarrow> dots_loop n dot_interval st')"

text \<open>Lines 226-236: the delay of one packet. \<^verbatim>\<open>range\<close> of a negative number is empty.\<close>

definition simulate_delay :: "rat \<Rightarrow> sim_state \<Rightarrow> sim_state + sim_state" where
  "simulate_delay delay st =
    (let dots_to_show = min (py_int delay) 15;
         dot_interval = (if dots_to_show > 0 then delay / of_int dots_to_show else delay)
     in case dots_loop (nat dots_to_show) dot_interval st of
          Inl st' \<Rightarrow> Inl st'
        | Inr st' \<Rightarrow>
            let remaining_delay = delay - of_int dots_to_show * dot_interval
            in if remaining_delay > 0 then sleep remaining_delay st' else Inr st')"

text \<open>Lines 220-254: the body of the loop for one chunk.\<close>

definition send_packet :: "rat \<Rightarrow> int \<Rightarrow> bool \<Rightarrow> string \<Rightarrow> sim_state \<Rightarrow> sim_state + sim_state" where
  "send_packet delay packets_total show_live_stats chunk st =
    (case simulate_delay delay (emit (Print_Header (packet_num st) packets_total) st) of
       Inl st' \<Rightarrow> Inl st'
     | Inr st1 \<Rightarrow>
         let st2 = emit (Print_Chunk chunk) (emit Print_OK st1);
             st3 = st2\<lparr>total_bytes_sent := total_bytes_sent st2 + length chunk\<rparr>;
             st4 = (if show_live_stats
                       \<and> int (packet_num st3) mod max 25 (packets_total div 10) = 0
                       \<and> int (packet_num st3) < packets_total
                    then emit (Live_Stats (packet_num st3) packets_total (total_bytes_sent st3)) st3
                    else st3);
             st5 = st4\<lparr>packet_num := packet_num st4 + 1\<rparr>
         in sleep 0.05 st5)"

text \<open>
  Line 219, \<^verbatim>\<open>for i in range(0, len(content), packet_size)\<close>, from the index \<open>i\<close> on; the
  chunk is the slice \<^verbatim>\<open>content[i:i + packet_size]\<close>.
\<close>

function transmit ::
  "string \<Rightarrow> nat \<Rightarrow> rat \<Rightarrow> int \<Rightarrow> bool \<Rightarrow> nat \<Rightarrow> sim_state \<Rightarrow> sim_state + sim_state" where
  "transmit content packet_size delay packets_total show_live_stats i st =
    (if 0 < packet_size \<and> i < length content then
       (case send_packet delay packets_total show_live_stats (take packet_size (drop i content)) st of
          Inl st' \<Rightarrow> Inl st'
        | Inr st' \<Rightarrow>
            transmit content packet_size delay packets_total show_live_stats (i + packet_size) st')
     else Inr st)"
  by pat_completeness auto
termination
  by (relation "measure (\<lambda>(content, packet_size, delay, packets_total, show_live_stats, i, st).
        length content - i)") auto

declare transmit.simps [simp del]

text \<open>
  Lines 209-267: the announcement, the \<^verbatim>\<open>try\<close> block with its handler and the final
  statistics. \<^verbatim>\<open>range\<close> raises \<^verbatim>\<open>ValueError\<close> on a zero step and is empty for a negative
  one.
\<close>

definition run_transmission ::
  "string \<Rightarrow> int \<Rightarrow> rat \<Rightarrow> int \<Rightarrow> bool \<Rightarrow> nat option \<Rightarrow> event list \<times> outcome" where
  "run_transmission content packet_size delay packets_total show_live_stats interrupt =
    (let st0 = \<lparr> total_bytes_sent = 0, packet_num = 1,
                 trace = Print_Starting # (if delay > 1 then [Print_EachDot] else []),
                 pending = interrupt \<rparr>
     in if packet_size = 0 then (trace st0, Raised ValueError)
        else
          (case transmit content (nat packet_size) delay packets_total show_live_stats 0 st0 of
             Inl st \<Rightarrow> (trace st, Cancelled (packet_num st - 1) packets_total (total_bytes_sent st))
           | Inr st \<Rightarrow> (trace st, Completed (packet_num st - 1) (total_bytes_sent st))))"

definition after_events :: "event list \<Rightarrow> event list \<times> outcome \<Rightarrow> event list \<times> outcome" where
  "after_events evs r = (evs @ fst r, snd r)"

text \<open>
  \<^verbatim>\<open>simulate_transmission\<close>, lines 187-267. \<open>stdin\<close> holds the lines that \<^verbatim>\<open>input\<close> will
  read; \<^verbatim>\<open>input\<close> raises \<^verbatim>\<open>EOFError\<close> when there is none.
\<close>

definition simulate_transmission ::
  "string \<Rightarrow> string \<Rightarrow> bool \<Rightarrow> string list \<Rightarrow> nat option \<Rightarrow> event list \<times> outcome" where
  "simulate_transmission content preset_id show_live_stats stdin interrupt =
    (case map_of RADIO_PRESETS preset_id of
       None \<Rightarrow> ([Print_InvalidPreset preset_id], InvalidPreset)
     | Some (data_rate, packet_size, sf_symbols, bandwidth, coding_rate, description) \<Rightarrow>
         (case display_transmission_info content preset_id of
            Inl err \<Rightarrow> ([], Raised err)
          | Inr (info, m) \<Rightarrow>
              let delay = transmission_time_per_packet m;
                  started = run_transmission content packet_size delay (total_packets m)
                              show_live_stats interrupt
              in if delay > 10 then
                   (case stdin of
                      [] \<Rightarrow> ([info, Prompt_Slow], Raised EOFError)
                    | response # _ \<Rightarrow>
                        if lower response \<noteq> ''y''
                        then ([info, Prompt_Slow, Print_Cancelled], Declined)
                        else after_events [info, Prompt_Slow] started)
                 else if delay > 3 then
                   (case stdin of
                      [] \<Rightarrow> ([info, Prompt_Moderate], Raised EOFError)
                    | response # _ \<Rightarrow>
                        if lower response = ''n''
                        then ([info, Prompt_Moderate, Print_Cancelled], Declined)
                        else after_events [info, Prompt_Moderate] started)
                 else after_events [info] started))"

subsection \<open>The entry point\<close>

text \<open>
  \<^verbatim>\<open>main\<close>, lines 331-353, for the argument vector \<^verbatim>\<open>sys.argv\<close>. Direct mode passes
  \<^verbatim>\<open>sys.argv[2]\<close> on as it is.
\<close>

definition main :: "env \<Rightarrow> string list \<Rightarrow> string list \<Rightarrow> nat option \<Rightarrow> event list \<times> outcome" where
  "main e argv stdin interrupt =
    (if length argv > 1 then
       (if length argv \<ge> 2 then
          (let source = argv ! 1;
               preset_id = (if length argv > 2 then argv ! 2 else default_preset);
               fetched = get_file_content e source
           in case snd fetched of
                None \<Rightarrow> (Print_DirectMode source preset_id # fst fetched, NotStarted)
              | Some content \<Rightarrow>
                  after_events (Print_DirectMode source preset_id # fst fetched)
                    (simulate_transmission content preset_id True stdin interrupt))
        else ([Print_Usage], NotStarted))
     else ([], Interactive))"

text \<open>
  The exit status of the process for lines 355-356: \<^verbatim>\<open>main()\<close> is the last statement of
  the script and the source never calls \<^verbatim>\<open>sys.exit\<close>, so the interpreter exits with 0
  when \<^verbatim>\<open>main\<close> returns and with 1 when an exception leaves it.
\<close>

definition exit_code :: "outcome \<Rightarrow> nat" where
  "exit_code r = (case r of Raised err \<Rightarrow> 1 | _ \<Rightarrow> 0)"

subsection \<open>Reading a trace\<close>

text \<open>The chunks printed (line 241) and the sleeps completed, in order.\<close>

fun chunks_of :: "event list \<Rightarrow> string list" where
  "chunks_of [] = []"
| "chunks_of (Print_Chunk c # evs) = c # chunks_of evs"
| "chunks_of (ev # evs) = chunks_of evs"

fun sleeps_of :: "event list \<Rightarrow> rat list" where
  "sleeps_of [] = []"
| "sleeps_of (Sleep d # evs) = d # sleeps_of evs"
| "sleeps_of (ev # evs) = sleeps_of evs"

fun headers_of :: "event list \<Rightarrow> nat list" where
  "headers_of [] = []"
| "headers_of (Print_Header n packets_total # evs) = n # headers_of evs"
| "headers_of (ev # evs) = headers_of evs"



subsection \<open>Two environments\<close>

text \<open>
  \<open>no_sources\<close>: no URL scheme is recognised and no path exists. \<open>every_source\<close>: every
  string is an HTTP URL that can be fetched and also the path of a readable file.
\<close>

definition no_sources :: env where
  "no_sources = \<lparr> scheme_of = (\<lambda>source. Some []), url_body = (\<lambda>source. None),
                   path_exists = (\<lambda>source. False), file_body = (\<lambda>source. None) \<rparr>"

definition every_source :: env where
  "every_source = \<lparr> scheme_of = (\<lambda>source. Some ''http''),
                     url_body = (\<lambda>source. Some ''remote text''),
                     path_exists = (\<lambda>source. True),
                     file_body = (\<lambda>source. Some ''local text'') \<rparr>"

section \<open>Properties of the metrics\<close>

lemma ceil_div_int:
  fixes a b :: int
  assumes "0 < b"
  shows "(a + b - 1) div b = \<lceil>(of_int a :: rat) / of_int b\<rceil>"
proof -
  define q where "q = (a + b - 1) div b"
  define r where "r = (a + b - 1) mod b"
  have split: "a + b - 1 = q * b + r"
    by (simp add: q_def r_def)
  have r: "0 \<le> r" "r < b"
    using assms by (simp_all add: r_def)
  have up: "a \<le> q * b"
    using split r by linarith
  have "q * b - b < a"
    using split r by linarith
  then have lo: "(q - 1) * b < a"
    by (simp add: algebra_simps)
  have pos: "(0::rat) < of_int b"
    using assms by simp
  have "(of_int a :: rat) \<le> of_int q * of_int b"
    using up by (metis of_int_le_iff of_int_mult)
  then have le: "(of_int a :: rat) / of_int b \<le> of_int q"
    using pos by (simp add: pos_divide_le_eq)
  have "(of_int (q - 1) :: rat) * of_int b < of_int a"
    using lo by (metis of_int_less_iff of_int_mult)
  then have gt: "(of_int q :: rat) - 1 < of_int a / of_int b"
    using pos by (simp add: pos_less_divide_eq)
  have "\<lceil>(of_int a :: rat) / of_int b\<rceil> = q"
    using gt le by (rule ceiling_unique)
  then show ?thesis
    by (simp add: q_def)
qed

lemma packets_cover:
  fixes a b :: int
  assumes "0 < b"
  shows "a \<le> (a + b - 1) div b * b"
proof -
  have "a + b - 1 = (a + b - 1) div b * b + (a + b - 1) mod b"
    by simp
  moreover have "(a + b - 1) mod b < b"
    using assms by simp
  ultimately show ?thesis
    by linarith
qed

lemma packets_exact:
  fixes a b :: int
  assumes "0 < b"
  shows "(a + b - 1) div b * b = a \<longleftrightarrow> b dvd a"
proof
  assume "(a + b - 1) div b * b = a"
  then show "b dvd a"
    by (metis dvd_triv_right)
next
  assume "b dvd a"
  then obtain k where k: "a = b * k" ..
  have "(b * k + (b - 1)) div b = k + (b - 1) div b"
    using assms by simp
  moreover have "(b - 1) div b = 0"
    using assms by simp
  ultimately have "(a + b - 1) div b = k"
    using k by (simp add: algebra_simps)
  then show "(a + b - 1) div b * b = a"
    using k by simp
qed

text \<open>
  With a non-zero rate and a non-zero packet size no division raises, and the plan is the
  record below, field by field as the source computes it.
\<close>

lemma metrics_defined:
  assumes "data_rate_kbps \<noteq> 0" "packet_size \<noteq> 0"
  shows "calculate_transmission_metrics data_rate_kbps content_length packet_size =
    Inr \<lparr> bytes_per_second = (data_rate_kbps * 1000) / 8,
          transmission_time_per_packet = of_int packet_size / ((data_rate_kbps * 1000) / 8),
          total_packets = (content_length + packet_size - 1) div packet_size,
          total_transmission_time =
            of_int ((content_length + packet_size - 1) div packet_size)
              * (of_int packet_size / ((data_rate_kbps * 1000) / 8)),
          effective_data_rate_bps =
            (if of_int ((content_length + packet_size - 1) div packet_size)
                  * (of_int packet_size / ((data_rate_kbps * 1000) / 8)) > 0
             then of_int content_length
                    / (of_int ((content_length + packet_size - 1) div packet_size)
                         * (of_int packet_size / ((data_rate_kbps * 1000) / 8)))
             else 0),
          effective_data_rate_kbps =
            ((if of_int ((content_length + packet_size - 1) div packet_size)
                  * (of_int packet_size / ((data_rate_kbps * 1000) / 8)) > 0
             then of_int content_length
                    / (of_int ((content_length + packet_size - 1) div packet_size)
                         * (of_int packet_size / ((data_rate_kbps * 1000) / 8)))
             else 0) * 8) / 1000,
          overhead_percentage =
            (if content_length > 0
             then of_int ((content_length + packet_size - 1) div packet_size * packet_size
                            - content_length)
                    / of_int content_length * 100
             else 0) \<rparr>"
  using assms by (simp add: calculate_transmission_metrics_def Let_def)

text \<open>
  Claim C2. For every rate other than zero, every positive packet size and every content
  length, the plan is computed and its \<open>total_packets\<close> is the ceiling of the content
  length divided by the packet size; it is 0 when the content length is 0. (The content
  length need not even be non-negative for the equation.)
\<close>

theorem total_packets_is_ceiling:
  assumes "data_rate_kbps \<noteq> 0" and "0 < packet_size"
  shows "\<exists>m. calculate_transmission_metrics data_rate_kbps content_length packet_size = Inr m
           \<and> total_packets m = \<lceil>(of_int content_length :: rat) / of_int packet_size\<rceil>
           \<and> (content_length = 0 \<longrightarrow> total_packets m = 0)"
  using assms by (simp add: metrics_defined ceil_div_int)

theorem total_packets_is_ceiling_witness:
  "\<exists>m. calculate_transmission_metrics 3.52 475 237 = Inr m
         \<and> total_packets m = \<lceil>(of_int 475 :: rat) / of_int 237\<rceil>
         \<and> total_packets m = 3"
  using total_packets_is_ceiling [of "3.52" 237 475] by (auto simp: metrics_defined)

text \<open>
  Claim C9. For every rate other than zero and every packet size other than zero, the
  plan's \<open>total_transmission_time\<close> is its \<open>total_packets\<close> times its
  \<open>transmission_time_per_packet\<close>, as an equation between the computed fields.
\<close>

theorem duration_is_packets_times_delay:
  assumes "data_rate_kbps \<noteq> 0" and "packet_size \<noteq> 0"
  shows "\<exists>m. calculate_transmission_metrics data_rate_kbps content_length packet_size = Inr m
           \<and> total_transmission_time m
               = of_int (total_packets m) * transmission_time_per_packet m"
  using assms by (simp add: metrics_defined)

theorem duration_is_packets_times_delay_witness:
  "\<exists>m. calculate_transmission_metrics 1.95 500 237 = Inr m
         \<and> total_transmission_time m = of_int (total_packets m) * transmission_time_per_packet m
         \<and> total_packets m = 3 \<and> total_transmission_time m = 948 / 325"
  using duration_is_packets_times_delay [of "1.95" 237 500] by (auto simp: metrics_defined)

text \<open>
  Claim C6. For every rate other than zero, every positive packet size and every content
  length \<open>L \<ge> 0\<close>, the plan's \<open>overhead_percentage\<close> is at least 0, and it is 0 exactly
  when the packet size divides \<open>L\<close> (which includes \<open>L = 0\<close>).
\<close>

theorem overhead_nonneg_zero_iff_multiple:
  assumes "data_rate_kbps \<noteq> 0" and "0 < packet_size" and "0 \<le> content_length"
  shows "\<exists>m. calculate_transmission_metrics data_rate_kbps content_length packet_size = Inr m
           \<and> 0 \<le> overhead_percentage m
           \<and> (overhead_percentage m = 0 \<longleftrightarrow> packet_size dvd content_length)"
proof (cases "content_length = 0")
  case True
  then show ?thesis
    using assms by (simp add: metrics_defined)
next
  case False
  then have pos: "0 < content_length"
    using assms by simp
  let ?n = "(content_length + packet_size - 1) div packet_size"
  have cover: "content_length \<le> ?n * packet_size"
    using assms(2) by (rule packets_cover)
  have exact: "?n * packet_size = content_length \<longleftrightarrow> packet_size dvd content_length"
    using assms(2) by (rule packets_exact)
  have num: "(0::rat) \<le> of_int (?n * packet_size - content_length)"
    using cover by (simp only: of_int_0_le_iff)
  have den: "(0::rat) < of_int content_length"
    using pos by simp
  have nonneg: "(0::rat) \<le> of_int (?n * packet_size - content_length) / of_int content_length * 100"
    using num den by (intro mult_nonneg_nonneg divide_nonneg_pos) simp_all
  have "(of_int (?n * packet_size - content_length) / of_int content_length * 100 = (0::rat))
      \<longleftrightarrow> (of_int (?n * packet_size - content_length) = (0::rat))"
    using den by simp
  also have "\<dots> \<longleftrightarrow> ?n * packet_size - content_length = 0"
    by (simp only: of_int_eq_0_iff)
  finally have zero:
    "(of_int (?n * packet_size - content_length) / of_int content_length * 100 = (0::rat))
      \<longleftrightarrow> ?n * packet_size = content_length"
    by simp
  show ?thesis
    using assms pos nonneg zero exact by (simp add: metrics_defined)
qed

theorem overhead_nonneg_zero_iff_multiple_witness:
  "(\<exists>m. calculate_transmission_metrics 0.34 474 237 = Inr m \<and> overhead_percentage m = 0)
   \<and> (\<exists>m. calculate_transmission_metrics 0.34 1000 237 = Inr m
          \<and> 0 < overhead_percentage m \<and> \<not> (237::int) dvd 1000)"
  using overhead_nonneg_zero_iff_multiple [of "0.34" 237 474]
    overhead_nonneg_zero_iff_multiple [of "0.34" 237 1000]
  by (auto simp: metrics_defined)

section \<open>The preset table and the plan of the default preset\<close>

text \<open>
  Claim C7, the claim as it stands fails. The exact figures hold, the two decimal
  approximations do not: \<open>237 / 133.75 = 948 / 535 = 1.77196...\<close>, which is 1.7720 to four
  places and not 1.7729, and five times that is \<open>948 / 107 = 8.85981...\<close>, which is 8.8598
  and not 8.8645. A figure given to four decimal places is read as correct to half a unit of
  the fourth place.
\<close>

theorem default_profile_plan_counterexample:
  "calculate_transmission_metrics 1.07 1000 237 =
     Inr \<lparr> bytes_per_second = 535 / 4, transmission_time_per_packet = 948 / 535,
           total_packets = 5, total_transmission_time = 948 / 107,
           effective_data_rate_bps = 26750 / 237, effective_data_rate_kbps = 214 / 237,
           overhead_percentage = 37 / 2 \<rparr>
   \<and> \<not> \<bar>948 / 535 - 1.7729\<bar> \<le> (0.00005::rat)
   \<and> \<not> \<bar>948 / 107 - 8.8645\<bar> \<le> (0.00005::rat)"
  by (simp add: metrics_defined)

text \<open>
  Claim C7, amended. The table holds exactly eight presets with distinct ids, the default
  id is "6", preset "6" has rate 1.07 and packet size 237, and for content length 1000 its
  plan has \<open>total_packets = 5\<close>, \<open>bytes_per_second = 133.75\<close>,
  \<open>transmission_time_per_packet = 237 / 133.75\<close> (1.7720 to four places) and
  \<open>total_transmission_time = 5 * (237 / 133.75)\<close> (8.8598 to four places).
\<close>

theorem default_profile_plan:
  "length RADIO_PRESETS = 8
   \<and> distinct (map fst RADIO_PRESETS)
   \<and> default_preset = ''6''
   \<and> map_of RADIO_PRESETS default_preset
       = Some (1.07, 237, ''11/2048'', 250, ''4/5'',
               ''Long Range / Fast - DEFAULT PRESET - Low speed, long range'')
   \<and> (\<exists>m. calculate_transmission_metrics 1.07 1000 237 = Inr m
          \<and> total_packets m = 5
          \<and> bytes_per_second m = 133.75
          \<and> transmission_time_per_packet m = 237 / 133.75
          \<and> total_transmission_time m = 5 * (237 / 133.75)
          \<and> \<bar>transmission_time_per_packet m - 1.7720\<bar> \<le> 0.00005
          \<and> \<bar>total_transmission_time m - 8.8598\<bar> \<le> 0.00005)"
  by (simp add: RADIO_PRESETS_def default_preset_def metrics_defined)

section \<open>Content sources\<close>

lemma lower_examples:
  "lower ''SAMPLE'' = ''sample''" "lower ''Demo'' = ''demo''"
  "lower ''tEST'' = ''test''" "lower ''default'' = ''default''"
  by code_simp+

text \<open>
  Claim C10. Whenever the lowercased source is one of "sample", "demo", "test", "default",
  \<^verbatim>\<open>get_file_content\<close> returns the built-in sample text after printing the notice of
  line 101, whatever the environment holds under that name: no URL is fetched and no file
  is read.
\<close>

theorem keyword_sources_ignore_case:
  assumes "lower source \<in> {''sample'', ''demo'', ''test'', ''default''}"
  shows "get_file_content e source = ([Print_UsingSample], Some SAMPLE_TEXT)"
  using assms by (auto simp: get_file_content_def)

theorem keyword_sources_ignore_case_witness:
  "get_file_content every_source ''SAMPLE'' = ([Print_UsingSample], Some SAMPLE_TEXT)
   \<and> get_file_content every_source ''Demo'' = ([Print_UsingSample], Some SAMPLE_TEXT)
   \<and> get_file_content every_source ''notes.txt'' = ([Print_Fetching ''notes.txt''], Some ''remote text'')"
proof -
  have a: "get_file_content every_source ''SAMPLE'' = ([Print_UsingSample], Some SAMPLE_TEXT)"
    using keyword_sources_ignore_case [of "''SAMPLE''" every_source]
    by (simp add: lower_examples)
  have b: "get_file_content every_source ''Demo'' = ([Print_UsingSample], Some SAMPLE_TEXT)"
    using keyword_sources_ignore_case [of "''Demo''" every_source]
    by (simp add: lower_examples)
  have c: "get_file_content every_source ''notes.txt''
             = ([Print_Fetching ''notes.txt''], Some ''remote text'')"
    by (simp add: get_file_content_def every_source_def lower_def lower_char_def)
  show ?thesis using a b c by simp
qed

lemma fetch_failure_message:
  assumes "snd (get_file_content e source) = None"
  shows "fst (get_file_content e source) \<noteq> []
         \<and> last (fst (get_file_content e source)) = Print_ErrorReading"
  using assms by (auto simp: get_file_content_def split: option.splits if_splits)

section \<open>Empty content\<close>

lemma transmit_empty:
  "transmit [] packet_size delay packets_total show_live_stats 0 st = Inr st"
  by (simp add: transmit.simps)

text \<open>
  Claim C8. For every rate other than zero and every positive packet size, the plan of
  content length 0 is computed without \<^verbatim>\<open>ZeroDivisionError\<close> and has
  \<open>total_packets\<close>, \<open>total_transmission_time\<close>, \<open>effective_data_rate_bps\<close> and
  \<open>overhead_percentage\<close> all 0; the run of the loop on empty content prints no packet
  header, sleeps nowhere, prints no chunk and ends as \<open>Completed\<close> with 0 packets and 0
  bytes, whatever the pending interrupt is.
\<close>

theorem empty_content_plan_and_run:
  assumes "data_rate_kbps \<noteq> 0" and "0 < packet_size"
  shows "(\<exists>m. calculate_transmission_metrics data_rate_kbps 0 packet_size = Inr m
            \<and> total_packets m = 0 \<and> total_transmission_time m = 0
            \<and> effective_data_rate_bps m = 0 \<and> overhead_percentage m = 0)
       \<and> (\<exists>evs. run_transmission [] packet_size delay packets_total show_live_stats interrupt
                   = (evs, Completed 0 0)
              \<and> headers_of evs = [] \<and> sleeps_of evs = [] \<and> chunks_of evs = [])"
  using assms by (simp add: metrics_defined run_transmission_def transmit_empty)

theorem empty_content_plan_and_run_witness:
  "(\<exists>m. calculate_transmission_metrics 1.07 0 237 = Inr m
            \<and> total_packets m = 0 \<and> total_transmission_time m = 0
            \<and> effective_data_rate_bps m = 0 \<and> overhead_percentage m = 0)
   \<and> run_transmission [] 237 (948 / 535) 0 True (Some 0)
        = ([Print_Starting, Print_EachDot], Completed 0 0)
   \<and> simulate_transmission [] ''6'' True [] (Some 0)
        = ([Print_Analysis ''6'' 0 0, Print_Starting, Print_EachDot], Completed 0 0)"
proof -
  have rate: "(1.07::rat) \<noteq> 0" by simp
  have size: "(0::int) < 237" by simp
  from empty_content_plan_and_run [OF rate size, of "948 / 535" 0 True "Some 0"]
  have a: "\<exists>m. calculate_transmission_metrics 1.07 0 237 = Inr m
            \<and> total_packets m = 0 \<and> total_transmission_time m = 0
            \<and> effective_data_rate_bps m = 0 \<and> overhead_percentage m = 0"
    by blast
  have b: "run_transmission [] 237 (948 / 535) 0 True (Some 0)
        = ([Print_Starting, Print_EachDot], Completed 0 0)"
    by (simp add: run_transmission_def transmit_empty)
  have c: "simulate_transmission [] ''6'' True [] (Some 0)
        = ([Print_Analysis ''6'' 0 0, Print_Starting, Print_EachDot], Completed 0 0)"
    by (simp add: simulate_transmission_def display_transmission_info_def RADIO_PRESETS_def
        metrics_defined run_transmission_def transmit_empty after_events_def)
  show ?thesis using a b c by simp
qed

section \<open>Direct mode\<close>

lemma simulate_invalid:
  assumes "preset_id \<notin> set (map fst RADIO_PRESETS)"
  shows "simulate_transmission content preset_id show_live_stats stdin interrupt
           = ([Print_InvalidPreset preset_id], InvalidPreset)"
proof -
  have "map_of RADIO_PRESETS preset_id = None"
    using assms by (simp add: map_of_eq_None_iff)
  then show ?thesis
    by (simp add: simulate_transmission_def)
qed

lemma every_source_run:
  "main every_source [''meshtastic_sim.py'', ''notes.txt'', ''1''] [] None
     = ([Print_DirectMode ''notes.txt'' ''1'', Print_Fetching ''notes.txt'',
         Print_Analysis ''1'' 11 1, Print_Starting, Print_Header 1 1, Sleep (237 / 2735),
         Print_OK, Print_Chunk ''remote text'', Sleep (1 / 20)], Completed 1 11)"
  by code_simp

lemma every_source_cancelled:
  "main every_source [''meshtastic_sim.py'', ''notes.txt'', ''1''] [] (Some 0)
     = ([Print_DirectMode ''notes.txt'' ''1'', Print_Fetching ''notes.txt'',
         Print_Analysis ''1'' 11 1, Print_Starting, Print_Header 1 1], Cancelled 0 1 0)"
  by code_simp

text \<open>
  Claim C1, the claim as it stands fails. With the source "sample" and the id "9", which is
  not in the table, direct mode announces preset "9", prints the message of line 190 and
  returns: the default "6" is not substituted and nothing is transmitted.
\<close>

theorem invalid_preset_counterexample:
  "main no_sources [''meshtastic_sim.py'', ''sample'', ''9''] [] None
     = ([Print_DirectMode ''sample'' ''9'', Print_UsingSample, Print_InvalidPreset ''9''],
        InvalidPreset)"
  by (simp add: main_def get_file_content_def lower_def lower_char_def
      simulate_transmission_def RADIO_PRESETS_def after_events_def Let_def)

text \<open>
  Claim C1, amended. In direct mode with a source whose content is fetched and a preset id
  that is not in the table, the program prints "Invalid preset ID" for that id, runs no
  simulation and returns normally (exit status 0, no exception); the id is never replaced.
  The default id "6" is used only when the preset argument is omitted: the call with two
  arguments behaves as the call with the default id as the third one.
\<close>

theorem invalid_preset_reported:
  assumes "preset_id \<notin> set (map fst RADIO_PRESETS)"
    and "get_file_content e source = (evs, Some content)"
  shows "main e [prog, source, preset_id] stdin interrupt
           = (Print_DirectMode source preset_id # evs @ [Print_InvalidPreset preset_id],
              InvalidPreset)
       \<and> exit_code (snd (main e [prog, source, preset_id] stdin interrupt)) = 0
       \<and> main e [prog, source] stdin interrupt
           = main e [prog, source, default_preset] stdin interrupt
       \<and> default_preset = ''6''"
  using assms
  by (simp add: main_def simulate_invalid after_events_def exit_code_def default_preset_def
      Let_def)

theorem invalid_preset_reported_witness:
  "''0'' \<notin> set (map fst RADIO_PRESETS)
   \<and> get_file_content every_source ''notes.txt''
        = ([Print_Fetching ''notes.txt''], Some ''remote text'')
   \<and> main every_source [''meshtastic_sim.py'', ''notes.txt'', ''0''] [] None
        = ([Print_DirectMode ''notes.txt'' ''0'', Print_Fetching ''notes.txt'',
            Print_InvalidPreset ''0''], InvalidPreset)"
proof -
  have a: "''0'' \<notin> set (map fst RADIO_PRESETS)"
    by (simp add: RADIO_PRESETS_def)
  have b: "get_file_content every_source ''notes.txt''
             = ([Print_Fetching ''notes.txt''], Some ''remote text'')"
    by (simp add: get_file_content_def every_source_def lower_def lower_char_def)
  show ?thesis
    using invalid_preset_reported [OF a b, of "''meshtastic_sim.py''" "[]" None] a b
    by simp
qed

text \<open>
  Claim C4, the claim as it stands fails. With a source that cannot be read, direct mode
  prints the error message, starts no simulation and \<^verbatim>\<open>main\<close> returns: the exit status is
  0, not a non-zero one.
\<close>

theorem fetch_failure_counterexample:
  "main no_sources [''meshtastic_sim.py'', ''missing.txt''] [] None
     = ([Print_DirectMode ''missing.txt'' ''6'', Print_ErrorReading], NotStarted)
   \<and> exit_code (snd (main no_sources [''meshtastic_sim.py'', ''missing.txt''] [] None)) = 0"
  by (simp add: main_def get_file_content_def no_sources_def lower_def lower_char_def
      default_preset_def exit_code_def Let_def)

text \<open>
  Claim C4, amended. In direct mode, when fetching the content fails, the program prints the
  message "Error reading source", does not start a simulation and ends with exit status 0,
  as \<^verbatim>\<open>main\<close> returns normally and the source sets no exit status anywhere. A run that
  completes and a run cancelled by an interrupt in the loop end with exit status 0 too.
\<close>

theorem fetch_failure_exit_status:
  assumes "snd (get_file_content e source) = None"
  shows "main e [prog, source] stdin interrupt
           = (Print_DirectMode source default_preset # fst (get_file_content e source),
              NotStarted)
       \<and> main e [prog, source, preset_id] stdin interrupt
           = (Print_DirectMode source preset_id # fst (get_file_content e source), NotStarted)
       \<and> last (fst (get_file_content e source)) = Print_ErrorReading
       \<and> exit_code (snd (main e [prog, source] stdin interrupt)) = 0
       \<and> exit_code (snd (main e [prog, source, preset_id] stdin interrupt)) = 0
       \<and> exit_code (Completed k b) = 0
       \<and> exit_code (Cancelled k packets_total b) = 0"
  using assms fetch_failure_message [OF assms]
  by (simp add: main_def exit_code_def Let_def)

theorem fetch_failure_exit_status_witness:
  "snd (get_file_content no_sources ''missing.txt'') = None
   \<and> main no_sources [''meshtastic_sim.py'', ''missing.txt'', ''3''] [] None
       = ([Print_DirectMode ''missing.txt'' ''3'', Print_ErrorReading], NotStarted)
   \<and> exit_code (snd (main no_sources [''meshtastic_sim.py'', ''missing.txt'', ''3''] [] None)) = 0
   \<and> exit_code (snd (main every_source [''meshtastic_sim.py'', ''notes.txt'', ''1''] [] None)) = 0
   \<and> exit_code (snd (main every_source [''meshtastic_sim.py'', ''notes.txt'', ''1''] []
         (Some 0))) = 0"
proof -
  have a: "snd (get_file_content no_sources ''missing.txt'') = None"
    by (simp add: get_file_content_def no_sources_def lower_def lower_char_def)
  have c: "fst (get_file_content no_sources ''missing.txt'') = [Print_ErrorReading]"
    by (simp add: get_file_content_def no_sources_def lower_def lower_char_def)
  from fetch_failure_exit_status [OF a, of "''meshtastic_sim.py''" "[]" None "''3''" 1 11 1]
  have "main no_sources [''meshtastic_sim.py'', ''missing.txt'', ''3''] [] None
       = ([Print_DirectMode ''missing.txt'' ''3'', Print_ErrorReading], NotStarted)
     \<and> exit_code (snd (main no_sources [''meshtastic_sim.py'', ''missing.txt'', ''3''] []
           None)) = 0"
    by (simp add: c exit_code_def)
  then show ?thesis
    using a by (simp add: every_source_run every_source_cancelled exit_code_def)
qed

section \<open>The transmission loop\<close>

lemma chunks_of_append: "chunks_of (xs @ ys) = chunks_of xs @ chunks_of ys"
  by (induction xs rule: chunks_of.induct) simp_all

lemma sleeps_of_append: "sleeps_of (xs @ ys) = sleeps_of xs @ sleeps_of ys"
  by (induction xs rule: sleeps_of.induct) simp_all

lemma headers_of_append: "headers_of (xs @ ys) = headers_of xs @ headers_of ys"
  by (induction xs rule: headers_of.induct) simp_all

lemma chunks_of_dots: "chunks_of (concat (replicate n [Print_Dot, Sleep d])) = []"
  by (induction n) simp_all

lemma headers_of_dots: "headers_of (concat (replicate n [Print_Dot, Sleep d])) = []"
  by (induction n) simp_all

lemma sleeps_of_dots: "sleeps_of (concat (replicate n [Print_Dot, Sleep d])) = replicate n d"
  by (induction n) simp_all

lemma emit_fields [simp]:
  "pending (emit ev st) = pending st"
  "packet_num (emit ev st) = packet_num st"
  "total_bytes_sent (emit ev st) = total_bytes_sent st"
  "trace (emit ev st) = trace st @ [ev]"
  by (simp_all add: emit_def)

lemma sleep_None:
  "pending st = None \<Longrightarrow> sleep d st = Inr (emit (Sleep d) st)"
  by (simp add: sleep_def)



lemma dots_loop_None:
  "pending st = None \<Longrightarrow>
   dots_loop n d st = Inr (st\<lparr>trace := trace st @ concat (replicate n [Print_Dot, Sleep d])\<rparr>)"
proof (induction n arbitrary: st)
  case 0
  then show ?case by simp
next
  case (Suc n)
  let ?st1 = "emit (Sleep d) (emit Print_Dot st)"
  have "pending ?st1 = None"
    using Suc.prems by (simp add: emit_def)
  from Suc.IH [OF this] Suc.prems show ?case
    by (simp add: sleep_def emit_def)
qed




lemma delay_remaining_nonpos:
  assumes "\<not> 0 < min (py_int d) 15"
  shows "nat (min (py_int d) 15) = 0"
    and "0 < d - of_int (min (py_int d) 15) * d \<longleftrightarrow> 0 < d"
    and "0 < d \<Longrightarrow> min (py_int d) 15 = 0"
proof -
  show "nat (min (py_int d) 15) = 0"
    using assms by simp
  show "min (py_int d) 15 = 0" if "0 < d"
  proof -
    have "0 \<le> py_int d"
      using that by (simp add: py_int_def)
    then show ?thesis
      using assms by simp
  qed
  show "0 < d - of_int (min (py_int d) 15) * d \<longleftrightarrow> 0 < d"
  proof (cases "0 \<le> d")
    case True
    then have "0 \<le> py_int d"
      by (simp add: py_int_def)
    then have "min (py_int d) 15 = 0"
      using assms by simp
    then show ?thesis
      by simp
  next
    case False
    then have neg: "d < 0" by simp
    then have "py_int d \<le> 0"
      by (simp add: py_int_def ceiling_le_zero)
    then have "(0::rat) \<le> 1 - of_int (min (py_int d) 15)"
      by simp
    then have "d * (1 - of_int (min (py_int d) 15)) \<le> 0"
      using neg by (simp add: mult_nonpos_nonneg)
    then have "d - of_int (min (py_int d) 15) * d \<le> 0"
      by (simp add: algebra_simps)
    then show ?thesis
      using neg by simp
  qed
qed

text \<open>The events of the delay of one packet when nothing interrupts it.\<close>

lemma simulate_delay_None:
  assumes "pending st = None"
  shows "\<exists>st'. simulate_delay d st = Inr st'
    \<and> pending st' = None
    \<and> packet_num st' = packet_num st \<and> total_bytes_sent st' = total_bytes_sent st
    \<and> chunks_of (trace st') = chunks_of (trace st)
    \<and> headers_of (trace st') = headers_of (trace st)
    \<and> sleeps_of (trace st') = sleeps_of (trace st)
         @ (if 0 < min (py_int d) 15
            then replicate (nat (min (py_int d) 15)) (d / of_int (min (py_int d) 15))
            else if 0 < d then [d] else [])"
proof (cases "0 < min (py_int d) 15")
  case True
  then show ?thesis
    using assms
    by (simp add: simulate_delay_def Let_def dots_loop_None chunks_of_append
        headers_of_append sleeps_of_append chunks_of_dots sleeps_of_dots headers_of_dots)
next
  case False
  note np = delay_remaining_nonpos [OF False]
  show ?thesis
  proof (cases "0 < d")
    case True
    then have "min (py_int d) 15 = 0"
      by (rule np(3))
    then show ?thesis
      using assms True
      by (simp add: simulate_delay_def Let_def sleep_None chunks_of_append
          headers_of_append sleeps_of_append)
  next
    case no: False
    then have "\<not> 0 < d - of_int (min (py_int d) 15) * d"
      using np(2) by simp
    then show ?thesis
      using assms False no np(1)
      by (simp add: simulate_delay_def Let_def)
  qed
qed
















lemma floor_examples:
  "\<lfloor>5 / 2 :: rat\<rfloor> = 2" "\<lfloor>1 / 2 :: rat\<rfloor> = 0" "\<lfloor>70 / 3 :: rat\<rfloor> = 23"
  by (rule floor_unique; simp)+

text \<open>
  Claim C5. For every delay \<open>d > 0\<close> the delay of one packet, when nothing interrupts it,
  sleeps \<open>min \<lfloor>d\<rfloor> 15\<close> times for \<open>d / min \<lfloor>d\<rfloor> 15\<close> each (no such sleep when
  \<open>\<lfloor>d\<rfloor> = 0\<close>) and then for the remainder \<^verbatim>\<open>delay - dots_to_show * dot_interval\<close>, which
  line 235 sleeps only when it is positive: it is \<open>d\<close> when \<open>\<lfloor>d\<rfloor> = 0\<close> and 0 otherwise.
  The durations slept add up to \<open>d\<close> exactly.
\<close>

theorem delay_is_partitioned:
  assumes "0 < d" and "pending st = None"
  shows "\<exists>st'. simulate_delay d st = Inr st'
    \<and> sleeps_of (trace st')
        = sleeps_of (trace st)
            @ replicate (nat (min \<lfloor>d\<rfloor> 15)) (d / of_int (min \<lfloor>d\<rfloor> 15))
            @ (if \<lfloor>d\<rfloor> = 0 then [d] else [])
    \<and> sum_list (replicate (nat (min \<lfloor>d\<rfloor> 15)) (d / of_int (min \<lfloor>d\<rfloor> 15))
                  @ (if \<lfloor>d\<rfloor> = 0 then [d] else [])) = d"
proof -
  have fl: "py_int d = \<lfloor>d\<rfloor>" "0 \<le> \<lfloor>d\<rfloor>"
    using assms(1) by (simp_all add: py_int_def)
  from simulate_delay_None [OF assms(2), of d]
  obtain st' where st': "simulate_delay d st = Inr st'"
    "sleeps_of (trace st') = sleeps_of (trace st)
         @ (if 0 < min (py_int d) 15
            then replicate (nat (min (py_int d) 15)) (d / of_int (min (py_int d) 15))
            else if 0 < d then [d] else [])"
    by blast
  show ?thesis
  proof (cases "\<lfloor>d\<rfloor> = 0")
    case True
    then show ?thesis
      using st' fl assms(1) by simp
  next
    case False
    then have "0 < \<lfloor>d\<rfloor>"
      using fl(2) by linarith
    then have one: "1 \<le> d"
      by simp
    then have pos: "0 < min \<lfloor>d\<rfloor> 15"
      by simp
    define m where "m = min \<lfloor>d\<rfloor> 15"
    have mpos: "0 < m"
      using pos by (simp only: m_def)
    have "sum_list (replicate (nat m) (d / of_int m)) = of_nat (nat m) * (d / of_int m)"
      by (rule sum_list_replicate)
    also have "\<dots> = of_int m * (d / of_int m)"
      using mpos by simp
    also have "\<dots> = d"
      using mpos by simp
    finally have
      "sum_list (replicate (nat (min \<lfloor>d\<rfloor> 15)) (d / of_int (min \<lfloor>d\<rfloor> 15))) = d"
      by (simp only: m_def)
    then show ?thesis
      using st' fl False pos one by simp
  qed
qed

theorem delay_is_partitioned_witness:
  "(\<exists>st'. simulate_delay (5 / 2)
            \<lparr> total_bytes_sent = 0, packet_num = 1, trace = [], pending = None \<rparr> = Inr st'
       \<and> sleeps_of (trace st') = [5 / 4, 5 / 4] \<and> sum_list [5 / 4, 5 / 4 :: rat] = 5 / 2)
   \<and> (\<exists>st'. simulate_delay (1 / 2)
            \<lparr> total_bytes_sent = 0, packet_num = 1, trace = [], pending = None \<rparr> = Inr st'
       \<and> sleeps_of (trace st') = [1 / 2])
   \<and> (\<exists>st'. simulate_delay (70 / 3)
            \<lparr> total_bytes_sent = 0, packet_num = 1, trace = [], pending = None \<rparr> = Inr st'
       \<and> sleeps_of (trace st') = replicate 15 (14 / 9)
       \<and> sum_list (replicate 15 (14 / 9 :: rat)) = 70 / 3)"
proof -
  let ?st = "\<lparr> total_bytes_sent = 0, packet_num = 1, trace = [], pending = None \<rparr>"
  have p: "pending ?st = None"
    by simp
  have a: "(0::rat) < 5 / 2" and b: "(0::rat) < 1 / 2" and c: "(0::rat) < 70 / 3"
    by simp_all
  have r2: "replicate 2 (5 / 4 :: rat) = [5 / 4, 5 / 4]"
    by (simp add: numeral_2_eq_2)
  have s15: "sum_list (replicate 15 (14 / 9 :: rat)) = 70 / 3"
    by (simp only: sum_list_replicate)
  from delay_is_partitioned [OF a p] delay_is_partitioned [OF b p]
    delay_is_partitioned [OF c p]
  show ?thesis
    by (simp add: floor_examples r2 s15)
qed




end
